theory Spec2Isabelle
  imports Main "HOL-Library.AList"
begin

section \<open>Python values\<close>

text \<open>
  The record class of \<^verbatim>\<open>polarion/record.py\<close> is dynamically typed: its attributes are
  whatever the service payload carries. Values are therefore one datatype. A dictionary
  is an association list in insertion order (\<open>PDict\<close>); an object read and written
  through its attributes is \<open>PObj\<close>; a service payload is \<open>PPayload d a\<close>, where
  \<open>d\<close> is what \<^verbatim>\<open>__dict__.items()\<close> yields and \<open>a\<close> is what attribute access
  reads (the source uses both views of \<^verbatim>\<open>self._polarion_record\<close>); the client object
  with its credentials is \<open>PClient user password\<close>.

  Objects are values here, not references. The only in-place mutations of the source
  (\<^verbatim>\<open>self.result.id = ...\<close>, the step slots, \<^verbatim>\<open>append\<close>) act on objects reached from
  an attribute of \<^verbatim>\<open>self\<close>; the other holder of the same objects is the payload kept in
  \<^verbatim>\<open>self._polarion_record\<close>, which is replaced by the reload before it is read again.
\<close>

datatype pyval =
    PNone
  | PBool bool
  | PInt int
  | PStr string
  | PBytes string
  | PList "pyval list"
  | PDict "(string \<times> pyval) list"
  | PObj "(string \<times> pyval) list"
  | PPayload "(string \<times> pyval) list" "(string \<times> pyval) list"
  | PClient pyval pyval

datatype exn =
    AttributeError string
  | IndexError
  | KeyError
  | TypeError
  | ValueError
  | Exception string
  | ServiceError string

text \<open>The enum \<^verbatim>\<open>Record.ResultType\<close>, its \<^verbatim>\<open>.value\<close> and the lookup by value
  \<^verbatim>\<open>ResultType(v)\<close>, which raises \<^verbatim>\<open>ValueError\<close> on a value of no member.\<close>

datatype ResultType = No | PASSED | FAILED | BLOCKED

fun ResultType_value :: "ResultType \<Rightarrow> pyval" where
  "ResultType_value No = PNone"
| "ResultType_value PASSED = PStr ''passed''"
| "ResultType_value FAILED = PStr ''failed''"
| "ResultType_value BLOCKED = PStr ''blocked''"

definition ResultType_of :: "pyval \<Rightarrow> exn + ResultType" where
  "ResultType_of v =
     (if v = PNone then Inr No
      else if v = PStr ''passed'' then Inr PASSED
      else if v = PStr ''failed'' then Inr FAILED
      else if v = PStr ''blocked'' then Inr BLOCKED
      else Inl ValueError)"

subsection \<open>Attribute access, subscripts, iteration\<close>

definition getattr :: "pyval \<Rightarrow> string \<Rightarrow> exn + pyval" where
  "getattr obj k =
     (case obj of
        PObj a \<Rightarrow> (case map_of a k of None \<Rightarrow> Inl (AttributeError k) | Some v \<Rightarrow> Inr v)
      | PPayload d a \<Rightarrow> (case map_of a k of None \<Rightarrow> Inl (AttributeError k) | Some v \<Rightarrow> Inr v)
      | PClient u p \<Rightarrow>
          (if k = ''user'' then Inr u else if k = ''password'' then Inr p
           else Inl (AttributeError k))
      | _ \<Rightarrow> Inl (AttributeError k))"

definition setattr :: "pyval \<Rightarrow> string \<Rightarrow> pyval \<Rightarrow> exn + pyval" where
  "setattr obj k v =
     (case obj of
        PObj a \<Rightarrow> Inr (PObj (AList.update k v a))
      | PPayload d a \<Rightarrow> Inr (PPayload d (AList.update k v a))
      | PClient u p \<Rightarrow>
          (if k = ''user'' then Inr (PClient v p) else if k = ''password'' then Inr (PClient u v)
           else Inl (AttributeError k))
      | _ \<Rightarrow> Inl (AttributeError k))"

text \<open>
  An object mutated in place is still the one its owner holds. With objects as values,
  the owner is given the mutated object back: \<open>with_attr\<close> for an owner that holds it
  in an attribute, \<open>with_item\<close> for a list that holds it at an index.
\<close>

definition with_attr :: "pyval \<Rightarrow> string \<Rightarrow> pyval \<Rightarrow> pyval" where
  "with_attr obj k v = (case setattr obj k v of Inl _ \<Rightarrow> obj | Inr obj' \<Rightarrow> obj')"

text \<open>\<^verbatim>\<open>obj.__dict__.items()\<close>.\<close>

definition obj_dict :: "pyval \<Rightarrow> exn + (string \<times> pyval) list" where
  "obj_dict obj =
     (case obj of
        PObj a \<Rightarrow> Inr a
      | PPayload d a \<Rightarrow> Inr d
      | PClient u p \<Rightarrow> Inr [(''user'', u), (''password'', p)]
      | _ \<Rightarrow> Inl (AttributeError ''__dict__''))"

text \<open>\<^verbatim>\<open>len(x)\<close> and \<^verbatim>\<open>x[i]\<close> for an integer \<open>i\<close>: negative indices count from the
  end, an index outside \<open>-len..len-1\<close> raises \<^verbatim>\<open>IndexError\<close>.\<close>

definition py_len :: "pyval \<Rightarrow> exn + int" where
  "py_len x =
     (case x of
        PStr s \<Rightarrow> Inr (int (length s))
      | PBytes s \<Rightarrow> Inr (int (length s))
      | PList xs \<Rightarrow> Inr (int (length xs))
      | PDict m \<Rightarrow> Inr (int (length m))
      | _ \<Rightarrow> Inl TypeError)"

definition norm_index :: "nat \<Rightarrow> int \<Rightarrow> exn + nat" where
  "norm_index n i =
     (let j = (if i < 0 then int n + i else i)
      in if 0 \<le> j \<and> j < int n then Inr (nat j) else Inl IndexError)"

definition py_getitem :: "pyval \<Rightarrow> int \<Rightarrow> exn + pyval" where
  "py_getitem x i =
     (case x of
        PList xs \<Rightarrow>
          (case norm_index (length xs) i of Inl e \<Rightarrow> Inl e | Inr j \<Rightarrow> Inr (xs ! j))
      | PStr s \<Rightarrow>
          (case norm_index (length s) i of Inl e \<Rightarrow> Inl e | Inr j \<Rightarrow> Inr (PStr [s ! j]))
      | PBytes s \<Rightarrow>
          (case norm_index (length s) i of Inl e \<Rightarrow> Inl e
           | Inr j \<Rightarrow> Inr (PInt (int (of_char (s ! j)))))
      | PDict m \<Rightarrow> Inl KeyError
      | _ \<Rightarrow> Inl TypeError)"

definition with_item :: "pyval \<Rightarrow> int \<Rightarrow> pyval \<Rightarrow> pyval" where
  "with_item x i v =
     (case x of
        PList xs \<Rightarrow>
          (case norm_index (length xs) i of Inl _ \<Rightarrow> x | Inr j \<Rightarrow> PList (xs[j := v]))
      | _ \<Rightarrow> x)"

text \<open>\<^verbatim>\<open>for x in v\<close>: the elements the loop visits.\<close>

definition py_iter :: "pyval \<Rightarrow> exn + pyval list" where
  "py_iter v =
     (case v of
        PList xs \<Rightarrow> Inr xs
      | PStr s \<Rightarrow> Inr (map (\<lambda>c. PStr [c]) s)
      | PBytes s \<Rightarrow> Inr (map (\<lambda>c. PInt (int (of_char c))) s)
      | PDict m \<Rightarrow> Inr (map (\<lambda>(k, _). PStr k) m)
      | _ \<Rightarrow> Inl TypeError)"

text \<open>
  \<^verbatim>\<open>for key in value: setattr(self, key, value[key])\<close> (lines 38-39): the assignments
  one sub-mapping contributes. A dictionary contributes its items. An empty string,
  bytes or list contributes nothing. Any other value raises at its first key, before
  any assignment: a string key indexes a string (\<^verbatim>\<open>TypeError\<close>), a list element
  or the value of a byte indexes the list or the bytes (\<^verbatim>\<open>IndexError\<close> out of range,
  else \<^verbatim>\<open>TypeError\<close> from \<^verbatim>\<open>setattr\<close> with a name that is no string), and what is
  not iterable raises \<^verbatim>\<open>TypeError\<close>.
\<close>

definition iter_items :: "pyval \<Rightarrow> exn + (string \<times> pyval) list" where
  "iter_items v =
     (case v of
        PDict m \<Rightarrow> Inr m
      | PStr s \<Rightarrow> (if s = [] then Inr [] else Inl TypeError)
      | PBytes s \<Rightarrow>
          (case s of
             [] \<Rightarrow> Inr []
           | c # _ \<Rightarrow>
               (case norm_index (length s) (int (of_char c)) of
                  Inl e \<Rightarrow> Inl e | Inr _ \<Rightarrow> Inl TypeError))
      | PList xs \<Rightarrow>
          (case xs of
             [] \<Rightarrow> Inr []
           | x # _ \<Rightarrow>
               (case x of
                  PInt i \<Rightarrow>
                    (case norm_index (length xs) i of Inl e \<Rightarrow> Inl e | Inr _ \<Rightarrow> Inl TypeError)
                | PBool b \<Rightarrow>
                    (case norm_index (length xs) (if b then 1 else 0) of
                       Inl e \<Rightarrow> Inl e | Inr _ \<Rightarrow> Inl TypeError)
                | _ \<Rightarrow> Inl TypeError))
      | _ \<Rightarrow> Inl TypeError)"

text \<open>\<^verbatim>\<open>s.split(sep)\<close> for a one-character separator, and \<^verbatim>\<open>x.split('}')[1]\<close> on
  any value.\<close>

fun split_on :: "char \<Rightarrow> string \<Rightarrow> string list" where
  "split_on c [] = [[]]"
| "split_on c (x # xs) =
     (if x = c then [] # split_on c xs
      else (case split_on c xs of [] \<Rightarrow> [[x]] | y # ys \<Rightarrow> (x # y) # ys))"

definition split_second :: "pyval \<Rightarrow> exn + pyval" where
  "split_second x =
     (case x of
        PStr s \<Rightarrow>
          (case split_on (CHR ''}'') s of
             _ # b # _ \<Rightarrow> Inr (PStr b)
           | _ \<Rightarrow> Inl IndexError)
      | PBytes s \<Rightarrow> Inl TypeError
      | PObj a \<Rightarrow> (case map_of a ''split'' of None \<Rightarrow> Inl (AttributeError ''split'')
                    | Some _ \<Rightarrow> Inl TypeError)
      | PPayload d a \<Rightarrow> (case map_of a ''split'' of None \<Rightarrow> Inl (AttributeError ''split'')
                    | Some _ \<Rightarrow> Inl TypeError)
      | _ \<Rightarrow> Inl (AttributeError ''split''))"

text \<open>\<^verbatim>\<open>attr.startswith('_')\<close> and \<^verbatim>\<open>os.path.split(path)[1]\<close>.\<close>

definition startswith_underscore :: "string \<Rightarrow> bool" where
  "startswith_underscore k = (case k of [] \<Rightarrow> False | c # _ \<Rightarrow> c = CHR ''_'')"


section \<open>The record object and its collaborators\<close>

text \<open>
  The collaborators of the record are not part of it: the service proxy obtained from
  the client, \<^verbatim>\<open>requests.get\<close> and the local file system. Each call to one of them is
  a \<open>call\<close>; the environment answers a call with a value or an exception, and the
  answer may depend on every call made before (the remote side is stateful).
\<close>

datatype call =
    GetService string
  | GetTestCaseRecords pyval pyval
  | GetTestSteps pyval
  | ExecuteTest pyval "(string \<times> pyval) list"
  | DeleteAttachmentFromTestRecord pyval pyval pyval
  | AddAttachmentToTestRecord pyval pyval pyval pyval pyval
  | HttpGet pyval pyval pyval
  | FileOpen string
  | FileRead string

type_synonym env = "call list \<Rightarrow> call \<Rightarrow> exn + pyval"

text \<open>The state: \<^verbatim>\<open>self.__dict__\<close> in insertion order, and the calls made so far.
  An operation returns its result or the exception it raised, and the state it left.\<close>

record pstate =
  attrs :: "(string \<times> pyval) list"
  calls :: "call list"

type_synonym 'a op = "pstate \<Rightarrow> (exn + 'a) \<times> pstate"

definition bnd :: "'a op \<Rightarrow> ('a \<Rightarrow> 'b op) \<Rightarrow> 'b op" where
  "bnd m f s = (case m s of (Inl e, s') \<Rightarrow> (Inl e, s') | (Inr x, s') \<Rightarrow> f x s')"

definition lift :: "exn + 'a \<Rightarrow> 'a op" where
  "lift r s = (r, s)"

definition raise :: "exn \<Rightarrow> 'a op" where
  "raise e s = (Inl e, s)"

definition getattr_self :: "string \<Rightarrow> pyval op" where
  "getattr_self k s =
     (case map_of (attrs s) k of
        None \<Rightarrow> (Inl (AttributeError k), s)
      | Some v \<Rightarrow> (Inr v, s))"

definition setattr_self :: "string \<Rightarrow> pyval \<Rightarrow> unit op" where
  "setattr_self k v s = (Inr (), s\<lparr>attrs := AList.update k v (attrs s)\<rparr>)"

definition call :: "env \<Rightarrow> call \<Rightarrow> pyval op" where
  "call env c s = (env (calls s) c, s\<lparr>calls := calls s @ [c]\<rparr>)"

text \<open>
  Modelled from the spec: the client class (\<^verbatim>\<open>polarion.py\<close>) is not among the sources.
  \<^verbatim>\<open>self._polarion\<close> must be the client for a method of it to be called. Its type
  factories build the "result holder", the "rich content" and the "empty step-result
  slots" of the spec: an object holding exactly the keyword arguments of the call, and
  for the array type an object with an empty \<^verbatim>\<open>TestStepResult\<close> list (the source
  appends to it).
\<close>

definition polarion_method :: "string \<Rightarrow> unit op" where
  "polarion_method name =
     bnd (getattr_self ''_polarion'') (\<lambda>c.
       case c of PClient u p \<Rightarrow> lift (Inr ()) | _ \<Rightarrow> raise (AttributeError name))"

definition EnumOptionIdType :: "pyval \<Rightarrow> pyval" where
  "EnumOptionIdType v = PObj [(''id'', v)]"

definition TextType :: "pyval \<Rightarrow> pyval" where
  "TextType content =
     PObj [(''content'', content), (''type'', PStr ''text/html''), (''contentLossy'', PBool False)]"

definition TestStepResultType :: pyval where
  "TestStepResultType = PObj []"

definition ArrayOfTestStepResultType :: pyval where
  "ArrayOfTestStepResultType = PObj [(''TestStepResult'', PList [])]"

definition getService :: "env \<Rightarrow> unit op" where
  "getService env =
     bnd (polarion_method ''getService'') (\<lambda>_.
     bnd (call env (GetService ''TestManagement'')) (\<lambda>_. lift (Inr ())))"

section \<open>The methods of Record\<close>

subsection \<open>Construction and reload (lines 27-48)\<close>

fun setattrs :: "(string \<times> pyval) list \<Rightarrow> (string \<times> pyval) list \<Rightarrow> (string \<times> pyval) list" where
  "setattrs [] al = al"
| "setattrs ((k, v) # kvs) al = setattrs kvs (AList.update k v al)"

fun flatten :: "(string \<times> pyval) list \<Rightarrow> unit op" where
  "flatten [] s = (Inr (), s)"
| "flatten ((attr, val) # rest) s =
     (case iter_items val of
        Inl e \<Rightarrow> (Inl e, s)
      | Inr kvs \<Rightarrow> flatten rest (s\<lparr>attrs := setattrs kvs (attrs s)\<rparr>))"

text \<open>Lines 41-43: the testcase reference, the name parsed from it, the defect
  reference.\<close>

definition derive_fields :: "unit op" where
  "derive_fields =
     bnd (getattr_self ''_polarion_record'') (\<lambda>p1.
     bnd (lift (getattr p1 ''testCaseURI'')) (\<lambda>uri.
     bnd (setattr_self ''_testcase'' uri) (\<lambda>_.
     bnd (getattr_self ''_testcase'') (\<lambda>t.
     bnd (lift (split_second t)) (\<lambda>name.
     bnd (setattr_self ''_testcase_name'' name) (\<lambda>_.
     bnd (getattr_self ''_polarion_record'') (\<lambda>p2.
     bnd (lift (getattr p2 ''defectURI'')) (\<lambda>defect.
     setattr_self ''_defect'' defect))))))))"

definition buildWorkitemFromPolarion :: "unit op" where
  "buildWorkitemFromPolarion =
     bnd (getattr_self ''_polarion_record'') (\<lambda>p.
     bnd (lift (obj_dict p)) (\<lambda>d.
     bnd (flatten d) (\<lambda>_.
     derive_fields)))"

definition Record_init :: "pyval \<Rightarrow> pyval \<Rightarrow> pyval \<Rightarrow> pyval \<Rightarrow> call list \<Rightarrow> (exn + unit) \<times> pstate" where
  "Record_init polarion test_run polarion_record index cs =
     bnd (setattr_self ''_polarion'' polarion) (\<lambda>_.
     bnd (setattr_self ''_test_run'' test_run) (\<lambda>_.
     bnd (setattr_self ''_polarion_record'' polarion_record) (\<lambda>_.
     bnd (setattr_self ''_index'' index) (\<lambda>_.
     buildWorkitemFromPolarion))))
     \<lparr>attrs = [], calls = cs\<rparr>"

definition reloadFromPolarion :: "env \<Rightarrow> unit op" where
  "reloadFromPolarion env =
     bnd (getService env) (\<lambda>_.
     bnd (getattr_self ''_test_run'') (\<lambda>tr.
     bnd (lift (getattr tr ''uri'')) (\<lambda>uri.
     bnd (getattr_self ''_testcase'') (\<lambda>t.
     bnd (call env (GetTestCaseRecords uri t)) (\<lambda>r.
     bnd (lift (py_getitem r 0)) (\<lambda>p.
     bnd (setattr_self ''_polarion_record'' p) (\<lambda>_.
     buildWorkitemFromPolarion)))))))"

subsection \<open>save (lines 215-227)\<close>

fun public_items :: "(string \<times> pyval) list \<Rightarrow> (string \<times> pyval) list \<Rightarrow> (string \<times> pyval) list" where
  "public_items [] new_item = new_item"
| "public_items ((attr, val) # rest) new_item =
     (if startswith_underscore attr \<noteq> True
      then public_items rest (AList.update attr val new_item)
      else public_items rest new_item)"

definition save :: "env \<Rightarrow> unit op" where
  "save env s =
     (let new_item = public_items (attrs s) []
      in bnd (getService env) (\<lambda>_.
         bnd (getattr_self ''_test_run'') (\<lambda>tr.
         bnd (lift (getattr tr ''uri'')) (\<lambda>uri.
         bnd (call env (ExecuteTest uri new_item)) (\<lambda>_.
         reloadFromPolarion env)))) s)"

subsection \<open>Step results (lines 51-78)\<close>

definition append_slot :: "unit op" where
  "append_slot =
     bnd (getattr_self ''testStepResults'') (\<lambda>arr.
     bnd (lift (getattr arr ''TestStepResult'')) (\<lambda>xs.
     bnd (case xs of PList l \<Rightarrow> lift (Inr l) | _ \<Rightarrow> raise (AttributeError ''append'')) (\<lambda>l.
     bnd (polarion_method ''TestStepResultType'') (\<lambda>_.
     setattr_self ''testStepResults''
       (with_attr arr ''TestStepResult'' (PList (l @ [TestStepResultType])))))))"

fun append_slots :: "nat \<Rightarrow> unit op" where
  "append_slots 0 s = (Inr (), s)"
| "append_slots (Suc n) s = bnd append_slot (\<lambda>_. append_slots n) s"

definition init_steps :: "env \<Rightarrow> unit op" where
  "init_steps env =
     bnd (getService env) (\<lambda>_.
     bnd (getattr_self ''testCaseURI'') (\<lambda>uri.
     bnd (call env (GetTestSteps uri)) (\<lambda>test_steps.
     bnd (lift (getattr test_steps ''steps'')) (\<lambda>steps.
     bnd (if steps \<noteq> PNone
          then bnd (lift (getattr steps ''TestStep'')) (\<lambda>ts. lift (py_len ts))
          else lift (Inr 0)) (\<lambda>number_of_steps.
     bnd (polarion_method ''ArrayOfTestStepResultType'') (\<lambda>_.
     bnd (setattr_self ''testStepResults'' ArrayOfTestStepResultType) (\<lambda>_.
     append_slots (nat number_of_steps))))))))"

text \<open>\<^verbatim>\<open>self.testStepResults.TestStepResult[i].k = v\<close>, the right-hand side already
  evaluated.\<close>

definition assign_slot :: "int \<Rightarrow> string \<Rightarrow> pyval \<Rightarrow> unit op" where
  "assign_slot i k v =
     bnd (getattr_self ''testStepResults'') (\<lambda>arr.
     bnd (lift (getattr arr ''TestStepResult'')) (\<lambda>xs.
     bnd (lift (py_getitem xs i)) (\<lambda>slot.
     bnd (lift (setattr slot k v)) (\<lambda>slot'.
     setattr_self ''testStepResults''
       (with_attr arr ''TestStepResult'' (with_item xs i slot'))))))"

definition set_step :: "int \<Rightarrow> ResultType \<Rightarrow> pyval \<Rightarrow> unit op" where
  "set_step step_number result comment =
     bnd (polarion_method ''EnumOptionIdType'') (\<lambda>_.
     bnd (assign_slot step_number ''result'' (EnumOptionIdType (ResultType_value result))) (\<lambda>_.
     if comment \<noteq> PNone
     then bnd (polarion_method ''TextType'') (\<lambda>_.
          assign_slot step_number ''comment'' (TextType comment))
     else lift (Inr ())))"

definition setTestStepResult :: "env \<Rightarrow> int \<Rightarrow> ResultType \<Rightarrow> pyval \<Rightarrow> unit op" where
  "setTestStepResult env step_number result comment =
     bnd (getattr_self ''testStepResults'') (\<lambda>tsr.
     bnd (if tsr = PNone then init_steps env else lift (Inr ())) (\<lambda>_.
     bnd (getattr_self ''testStepResults'') (\<lambda>tsr1.
     bnd (lift (getattr tsr1 ''TestStepResult'')) (\<lambda>xs.
     bnd (lift (py_len xs)) (\<lambda>n.
     bnd (if step_number < n then set_step step_number result comment else lift (Inr ())) (\<lambda>_.
     save env))))))"

subsection \<open>Result, comment and name (lines 80-135)\<close>


definition getTestCaseName :: "pyval op" where
  "getTestCaseName = getattr_self ''_testcase_name''"

definition setComment :: "pyval \<Rightarrow> unit op" where
  "setComment comment =
     bnd (polarion_method ''TextType'') (\<lambda>_. setattr_self ''comment'' (TextType comment))"




subsection \<open>Attachments (lines 146-213)\<close>

definition hasAttachment :: "bool op" where
  "hasAttachment = bnd (getattr_self ''attachments'') (\<lambda>a. lift (Inr (a \<noteq> PNone)))"

fun find_url :: "string \<Rightarrow> pyval list \<Rightarrow> pyval \<Rightarrow> exn + pyval" where
  "find_url file_name [] url = Inr url"
| "find_url file_name (attachment # rest) url =
     (case getattr attachment ''fileName'' of
        Inl e \<Rightarrow> Inl e
      | Inr n \<Rightarrow>
          if n = PStr file_name
          then (case getattr attachment ''url'' of
                  Inl e \<Rightarrow> Inl e
                | Inr u \<Rightarrow> find_url file_name rest u)
          else find_url file_name rest url)"

definition getAttachment :: "env \<Rightarrow> string \<Rightarrow> pyval op" where
  "getAttachment env file_name =
     bnd (getattr_self ''attachments'') (\<lambda>a.
     bnd (lift (getattr a ''TestRunAttachment'')) (\<lambda>l.
     bnd (lift (py_iter l)) (\<lambda>xs.
     bnd (lift (find_url file_name xs PNone)) (\<lambda>url.
     if url \<noteq> PNone
     then bnd (getattr_self ''_polarion'') (\<lambda>c.
          bnd (lift (getattr c ''user'')) (\<lambda>u.
          bnd (getattr_self ''_polarion'') (\<lambda>c1.
          bnd (lift (getattr c1 ''password'')) (\<lambda>pw.
          bnd (call env (HttpGet url u pw)) (\<lambda>resp.
          bnd (lift (getattr resp ''ok'')) (\<lambda>ok.
          if ok = PBool True \<or> ok = PInt 1
          then lift (getattr resp ''content'')
          else raise (Exception (''Could not download attachment '' @ file_name))))))))
     else raise (Exception (''Could not find attachment with name '' @ file_name))))))"



section \<open>Vocabulary of the statements\<close>

text \<open>
  What a payload contributes to the record when it is flattened: \<open>flat_items d\<close> are
  the assignments of lines 37-39 in the order they are made (a later one wins),
  \<open>payload_keys p\<close> the attribute names they assign, and \<open>payload_field p k\<close> the value
  attribute \<open>k\<close> ends with, if the payload assigns it.
\<close>

definition flat_items :: "(string \<times> pyval) list \<Rightarrow> (string \<times> pyval) list" where
  "flat_items d =
     concat (map (\<lambda>(attr, val). case iter_items val of Inl _ \<Rightarrow> [] | Inr kvs \<Rightarrow> kvs) d)"

definition payload_keys :: "pyval \<Rightarrow> string list" where
  "payload_keys p = (case obj_dict p of Inl _ \<Rightarrow> [] | Inr d \<Rightarrow> map fst (flat_items d))"


text \<open>Every sub-mapping of the payload can be iterated (the loop of lines 37-39 does
  not raise).\<close>

definition flattens :: "pyval \<Rightarrow> bool" where
  "flattens p =
     (case obj_dict p of
        Inl _ \<Rightarrow> False
      | Inr d \<Rightarrow> list_all (\<lambda>(attr, val). case iter_items val of Inl _ \<Rightarrow> False | Inr _ \<Rightarrow> True) d)"


text \<open>An operation that leaves attribute \<open>k\<close> of the record as it was, whether it
  returns or raises; and one whose calls to the collaborators all satisfy \<open>P\<close>.\<close>

definition keeps :: "string \<Rightarrow> 'a op \<Rightarrow> bool" where
  "keeps k m = (\<forall>s. map_of (attrs (snd (m s))) k = map_of (attrs s) k)"

definition appends_only :: "(call \<Rightarrow> bool) \<Rightarrow> 'a op \<Rightarrow> bool" where
  "appends_only P m = (\<forall>s. \<exists>cs. calls (snd (m s)) = calls s @ cs \<and> list_all P cs)"

fun is_ExecuteTest :: "call \<Rightarrow> bool" where
  "is_ExecuteTest (ExecuteTest u b) = True"
| "is_ExecuteTest _ = False"

text \<open>An attachment entry has a file name and a URL; \<open>matching\<close> are the entries of
  a collection whose file name is the one asked for.\<close>

definition is_entry :: "pyval \<Rightarrow> bool" where
  "is_entry x =
     (case getattr x ''fileName'' of
        Inl _ \<Rightarrow> False
      | Inr _ \<Rightarrow> (case getattr x ''url'' of Inl _ \<Rightarrow> False | Inr _ \<Rightarrow> True))"

definition matching :: "string \<Rightarrow> pyval list \<Rightarrow> pyval list" where
  "matching file_name xs = filter (\<lambda>x. getattr x ''fileName'' = Inr (PStr file_name)) xs"

subsection \<open>A concrete record and service\<close>

text \<open>
  A record as the service delivers it (every field of the record type present, unset
  ones \<^verbatim>\<open>None\<close>), the state its construction yields, and an environment that
  answers every reload with a record of result \<open>r\<close>, every download with a response of
  status \<open>ok\<close>, and the step query with two steps.
\<close>

definition ex_client :: pyval where
  "ex_client = PClient (PStr ''tester'') (PStr ''secret'')"

definition ex_test_run :: pyval where
  "ex_test_run = PObj [(''uri'', PStr ''run-1'')]"

definition ex_fields :: "pyval \<Rightarrow> pyval \<Rightarrow> pyval \<Rightarrow> (string \<times> pyval) list" where
  "ex_fields r steps atts =
     [(''testCaseURI'', PStr ''{ns}Proj/TC-123''), (''defectURI'', PNone), (''result'', r),
      (''comment'', PNone), (''testStepResults'', steps), (''attachments'', atts)]"

definition ex_payload :: "pyval \<Rightarrow> pyval \<Rightarrow> pyval \<Rightarrow> pyval" where
  "ex_payload r steps atts =
     PPayload [(''__values__'', PDict (ex_fields r steps atts))] (ex_fields r steps atts)"

definition ex_state :: "pyval \<Rightarrow> pyval \<Rightarrow> pyval \<Rightarrow> pstate" where
  "ex_state r steps atts =
     \<lparr>attrs =
        [(''_polarion'', ex_client), (''_test_run'', ex_test_run),
         (''_polarion_record'', ex_payload r steps atts), (''_index'', PInt 0)]
        @ ex_fields r steps atts
        @ [(''_testcase'', PStr ''{ns}Proj/TC-123''), (''_testcase_name'', PStr ''Proj/TC-123''),
           (''_defect'', PNone)],
      calls = []\<rparr>"

definition ex_env :: "pyval \<Rightarrow> bool \<Rightarrow> env" where
  "ex_env r ok cs c =
     (case c of
        GetTestCaseRecords u t \<Rightarrow> Inr (PList [ex_payload r PNone PNone])
      | GetTestSteps u \<Rightarrow> Inr (PObj [(''steps'', PObj [(''TestStep'', PList [PNone, PNone])])])
      | HttpGet url u p \<Rightarrow> Inr (PObj [(''ok'', PBool ok), (''content'', PBytes ''data'')])
      | _ \<Rightarrow> Inr PNone)"

text \<open>A service that rejects every write.\<close>

definition ex_env_rejecting :: env where
  "ex_env_rejecting cs c =
     (case c of ExecuteTest u b \<Rightarrow> Inl (ServiceError ''rejected'') | _ \<Rightarrow> Inr PNone)"

text \<open>A service whose records carry a field named \<^verbatim>\<open>_index\<close>.\<close>

definition ex_env_renumbering :: env where
  "ex_env_renumbering cs c =
     (case c of
        GetTestCaseRecords u t \<Rightarrow>
          Inr (PList [PPayload
                 [(''__values__'', PDict (ex_fields PNone PNone PNone @ [(''_index'', PInt 7)]))]
                 (ex_fields PNone PNone PNone @ [(''_index'', PInt 7)])])
      | _ \<Rightarrow> Inr PNone)"

definition ex_attachment :: "string \<Rightarrow> string \<Rightarrow> pyval" where
  "ex_attachment name url = PObj [(''fileName'', PStr name), (''url'', PStr url)]"

definition ex_attachments :: pyval where
  "ex_attachments =
     PObj [(''TestRunAttachment'',
            PList [ex_attachment ''a.txt'' ''http://h/1'', ex_attachment ''b.txt'' ''http://h/2'',
                   ex_attachment ''a.txt'' ''http://h/3''])]"

section \<open>Running the operations\<close>

lemma bnd_lift [simp]:
  "bnd (lift (Inr x)) f s = f x s"
  "bnd (lift (Inl e)) f s = (Inl e, s)"
  by (simp_all add: bnd_def lift_def)

lemma bnd_raise [simp]: "bnd (raise e) f s = (Inl e, s)"
  by (simp add: bnd_def raise_def)

lemma bnd_setattr_self [simp]:
  "bnd (setattr_self k v) f s = f () (s\<lparr>attrs := AList.update k v (attrs s)\<rparr>)"
  by (simp add: bnd_def setattr_self_def)

lemma bnd_getattr_self:
  "bnd (getattr_self k) f s =
     (case map_of (attrs s) k of None \<Rightarrow> (Inl (AttributeError k), s) | Some v \<Rightarrow> f v s)"
  by (simp add: bnd_def getattr_self_def split: option.splits)

lemma bnd_call:
  "bnd (call env c) f s =
     (case env (calls s) c of
        Inl e \<Rightarrow> (Inl e, s\<lparr>calls := calls s @ [c]\<rparr>)
      | Inr v \<Rightarrow> f v (s\<lparr>calls := calls s @ [c]\<rparr>))"
  by (simp add: bnd_def call_def split: sum.splits)

lemma bnd_assoc: "bnd (bnd m f) g = bnd m (\<lambda>x. bnd (f x) g)"
  by (rule ext) (simp add: bnd_def split: prod.splits sum.splits)

lemma bnd_polarion_method:
  "bnd (polarion_method name) f s =
     (case map_of (attrs s) ''_polarion'' of
        None \<Rightarrow> (Inl (AttributeError ''_polarion''), s)
      | Some c \<Rightarrow> (case c of PClient u p \<Rightarrow> f () s | _ \<Rightarrow> (Inl (AttributeError name), s)))"
  by (simp add: polarion_method_def bnd_assoc bnd_getattr_self split: option.splits pyval.splits)

lemma bnd_getService:
  "bnd (getService env) f s =
     (case map_of (attrs s) ''_polarion'' of
        None \<Rightarrow> (Inl (AttributeError ''_polarion''), s)
      | Some c \<Rightarrow>
          (case c of
             PClient u p \<Rightarrow>
               (case env (calls s) (GetService ''TestManagement'') of
                  Inl e \<Rightarrow> (Inl e, s\<lparr>calls := calls s @ [GetService ''TestManagement'']\<rparr>)
                | Inr v \<Rightarrow> f () (s\<lparr>calls := calls s @ [GetService ''TestManagement'']\<rparr>))
           | _ \<Rightarrow> (Inl (AttributeError ''getService''), s)))"
  by (simp add: getService_def bnd_assoc bnd_polarion_method bnd_call
      split: option.splits pyval.splits sum.splits)

lemma bnd_flatten:
  "bnd (flatten d) f s =
     (case flatten d s of (Inl e, s') \<Rightarrow> (Inl e, s') | (Inr x, s') \<Rightarrow> f x s')"
  by (simp add: bnd_def)

text \<open>The rules that run an operation on a concrete state.\<close>

lemmas run_simps = Let_def bnd_getService bnd_getattr_self bnd_call bnd_flatten
  bnd_polarion_method setattr_self_def getattr_self_def lift_def raise_def call_def
  obj_dict_def iter_items_def getattr_def setattr_def derive_fields_def
  split_second_def py_getitem_def py_len_def py_iter_def norm_index_def with_attr_def
  with_item_def startswith_underscore_def
  EnumOptionIdType_def TextType_def TestStepResultType_def ArrayOfTestStepResultType_def
  ResultType_of_def

lemmas ex_simps = ex_state_def ex_env_def ex_payload_def
  ex_fields_def ex_client_def ex_test_run_def ex_env_rejecting_def ex_attachment_def ex_attachments_def
  ex_env_renumbering_def

subsection \<open>The calls an operation makes\<close>


lemma appends_only_lift [simp]: "appends_only P (lift r)"
  by (simp add: appends_only_def lift_def)

lemma appends_only_raise [simp]: "appends_only P (raise e)"
  by (simp add: appends_only_def raise_def)

lemma appends_only_getattr_self [simp]: "appends_only P (getattr_self k)"
  by (simp add: appends_only_def getattr_self_def split: option.splits)

lemma appends_only_setattr_self [simp]: "appends_only P (setattr_self k v)"
  by (simp add: appends_only_def setattr_self_def)


lemma appends_only_bnd:
  assumes "appends_only P m" and "\<And>x. appends_only P (f x)"
  shows "appends_only P (bnd m f)"
  unfolding appends_only_def
proof
  fix s
  obtain r s1 where m: "m s = (r, s1)" by (cases "m s")
  from assms(1) obtain cs1 where c1: "calls s1 = calls s @ cs1" "list_all P cs1"
    unfolding appends_only_def using m by (metis snd_conv)
  show "\<exists>cs. calls (snd (bnd m f s)) = calls s @ cs \<and> list_all P cs"
  proof (cases r)
    case (Inl e)
    then show ?thesis using m c1 by (auto simp: bnd_def)
  next
    case (Inr x)
    from assms(2) [of x] obtain cs2 where
      c2: "calls (snd (f x s1)) = calls s1 @ cs2" "list_all P cs2"
      unfolding appends_only_def by blast
    have "calls (snd (bnd m f s)) = calls s @ (cs1 @ cs2)"
      using m Inr c1 c2 by (simp add: bnd_def)
    moreover have "list_all P (cs1 @ cs2)" using c1 c2 by simp
    ultimately show ?thesis by blast
  qed
qed

lemma appends_only_if:
  "appends_only P m \<Longrightarrow> appends_only P n \<Longrightarrow> appends_only P (if b then m else n)"
  by simp

lemma appends_only_polarion_method [simp]: "appends_only P (polarion_method name)"
  unfolding polarion_method_def
  by (intro appends_only_bnd) (auto split: pyval.splits)


lemma flatten_calls [simp]: "calls (snd (flatten d s)) = calls s"
  by (induction d s rule: flatten.induct) (auto split: sum.splits)

lemma appends_only_flatten [simp]: "appends_only P (flatten d)"
  by (simp add: appends_only_def)

lemma appends_only_derive_fields [simp]: "appends_only P derive_fields"
  unfolding derive_fields_def
  by (intro appends_only_bnd) auto

lemma appends_only_build [simp]: "appends_only P buildWorkitemFromPolarion"
  unfolding buildWorkitemFromPolarion_def
  by (intro appends_only_bnd) auto


section \<open>Attachments and comments\<close>

text \<open>
  C7. \<^verbatim>\<open>hasAttachment()\<close> returns true exactly when the attachments collection is not
  \<^verbatim>\<open>None\<close>; a collection that is present and empty makes it return true. It raises
  nothing and changes nothing.
\<close>

theorem hasAttachment_iff_present:
  "map_of (attrs s) ''attachments'' = Some a \<Longrightarrow>
     hasAttachment s = (Inr (a \<noteq> PNone), s) \<and>
     (fst (hasAttachment s) = Inr True \<longleftrightarrow> a \<noteq> PNone) \<and>
     (a = PObj [(''TestRunAttachment'', PList [])] \<longrightarrow> fst (hasAttachment s) = Inr True)"
  by (auto simp: hasAttachment_def bnd_getattr_self lift_def)

theorem hasAttachment_iff_present_witness:
  "hasAttachment (ex_state PNone PNone (PObj [(''TestRunAttachment'', PList [])])) =
     (Inr True, ex_state PNone PNone (PObj [(''TestRunAttachment'', PList [])])) \<and>
   hasAttachment (ex_state PNone PNone PNone) = (Inr False, ex_state PNone PNone PNone)"
  using hasAttachment_iff_present
          [of "ex_state PNone PNone (PObj [(''TestRunAttachment'', PList [])])"
              "PObj [(''TestRunAttachment'', PList [])]"]
        hasAttachment_iff_present [of "ex_state PNone PNone PNone" PNone]
  by (simp add: ex_state_def ex_fields_def)

text \<open>
  C8. \<^verbatim>\<open>setComment(text)\<close> makes no call to a collaborator (so no save), leaves every
  attribute other than \<^verbatim>\<open>comment\<close> as it was, and sets \<^verbatim>\<open>comment\<close> to the text
  wrapped as rich content.
\<close>

theorem setComment_changes_only_comment:
  "calls (snd (setComment text s)) = calls s \<and>
   (\<forall>k. k \<noteq> ''comment'' \<longrightarrow>
      map_of (attrs (snd (setComment text s))) k = map_of (attrs s) k) \<and>
   (map_of (attrs s) ''_polarion'' = Some (PClient u p) \<longrightarrow>
      setComment text s =
        (Inr (), s\<lparr>attrs := AList.update ''comment'' (TextType text) (attrs s)\<rparr>))"
  by (auto simp: setComment_def bnd_polarion_method setattr_self_def AList.update_conv'
      split: option.splits pyval.splits)

theorem setComment_changes_only_comment_witness:
  "setComment (PStr ''flaky'') (ex_state PNone PNone PNone) =
     (Inr (), (ex_state PNone PNone PNone)
        \<lparr>attrs := AList.update ''comment'' (TextType (PStr ''flaky''))
                   (attrs (ex_state PNone PNone PNone))\<rparr>) \<and>
   map_of (attrs (snd (setComment (PStr ''flaky'') (ex_state PNone PNone PNone)))) ''result''
     = Some PNone"
  using setComment_changes_only_comment
          [of "PStr ''flaky''" "ex_state PNone PNone PNone" "PStr ''tester''" "PStr ''secret''"]
  by (simp add: ex_state_def ex_fields_def ex_client_def)

section \<open>save\<close>






lemma save_example:
  "save (ex_env PNone True) (ex_state PNone PNone PNone) =
    (Inr (), (ex_state PNone PNone PNone)\<lparr>calls :=
       [GetService ''TestManagement'',
        ExecuteTest (PStr ''run-1'') (ex_fields PNone PNone PNone),
        GetService ''TestManagement'',
        GetTestCaseRecords (PStr ''run-1'') (PStr ''{ns}Proj/TC-123'')]\<rparr>)"
  by (simp add: save_def reloadFromPolarion_def buildWorkitemFromPolarion_def run_simps ex_simps)



text \<open>
  C3. When the service's \<^verbatim>\<open>executeTest\<close> raises inside \<^verbatim>\<open>save\<close>, \<^verbatim>\<open>save\<close> raises the
  same exception, the record's attributes are exactly those it was entered with, and
  the calls \<^verbatim>\<open>save\<close> made end with the failed \<^verbatim>\<open>executeTest\<close>: the reload was never
  started.
\<close>

theorem save_failure_leaves_record:
  assumes "map_of (attrs s) ''_polarion'' = Some (PClient u p)"
    and "env (calls s) (GetService ''TestManagement'') = Inr svc"
    and "map_of (attrs s) ''_test_run'' = Some tr"
    and "getattr tr ''uri'' = Inr uri"
    and "env (calls s @ [GetService ''TestManagement''])
           (ExecuteTest uri (public_items (attrs s) [])) = Inl e"
  shows "save env s =
           (Inl e, s\<lparr>calls := calls s @ [GetService ''TestManagement'',
                                         ExecuteTest uri (public_items (attrs s) [])]\<rparr>) \<and>
         attrs (snd (save env s)) = attrs s \<and>
         (\<forall>a b. GetTestCaseRecords a b
                  \<notin> set (drop (length (calls s)) (calls (snd (save env s)))))"
  using assms by (simp add: save_def Let_def bnd_getService bnd_getattr_self bnd_call)

theorem save_failure_leaves_record_witness:
  "save ex_env_rejecting (ex_state PNone PNone PNone) =
     (Inl (ServiceError ''rejected''),
      (ex_state PNone PNone PNone)\<lparr>calls :=
         [GetService ''TestManagement'',
          ExecuteTest (PStr ''run-1'') (ex_fields PNone PNone PNone)]\<rparr>) \<and>
   attrs (snd (save ex_env_rejecting (ex_state PNone PNone PNone)))
     = attrs (ex_state PNone PNone PNone)"
  using save_failure_leaves_record
    [of "ex_state PNone PNone PNone" "PStr ''tester''" "PStr ''secret''"
     ex_env_rejecting PNone ex_test_run "PStr ''run-1''" "ServiceError ''rejected''"]
  by (simp add: run_simps ex_simps)

section \<open>getAttachment\<close>

lemma find_url_last:
  "list_all is_entry xs \<Longrightarrow>
     \<exists>u. find_url fn xs url = Inr u \<and>
         (if matching fn xs = [] then u = url
          else getattr (last (matching fn xs)) ''url'' = Inr u)"
proof (induction xs arbitrary: url)
  case Nil
  then show ?case by (simp add: matching_def)
next
  case (Cons x xs)
  from Cons.prems have ex: "is_entry x" and rest: "list_all is_entry xs" by simp_all
  from ex obtain n ux where n: "getattr x ''fileName'' = Inr n" and ux: "getattr x ''url'' = Inr ux"
    by (auto simp: is_entry_def split: sum.splits)
  show ?case
  proof (cases "n = PStr fn")
    case True
    from Cons.IH [OF rest, of ux] obtain u where
      u: "find_url fn xs ux = Inr u"
         "if matching fn xs = [] then u = ux else getattr (last (matching fn xs)) ''url'' = Inr u"
      by blast
    have m: "matching fn (x # xs) = x # matching fn xs" using n True by (simp add: matching_def)
    show ?thesis using u n ux True m by (auto split: if_splits)
  next
    case False
    from Cons.IH [OF rest, of url] obtain u where
      u: "find_url fn xs url = Inr u"
         "if matching fn xs = [] then u = url else getattr (last (matching fn xs)) ''url'' = Inr u"
      by blast
    have m: "matching fn (x # xs) = matching fn xs" using n False by (simp add: matching_def)
    show ?thesis using u n False m by auto
  qed
qed

lemma find_url_none:
  "list_all is_entry xs \<Longrightarrow> matching fn xs = [] \<Longrightarrow> find_url fn xs url = Inr url"
  using find_url_last [of xs fn url] by auto

lemma find_url_some:
  "list_all is_entry xs \<Longrightarrow> matching fn xs \<noteq> [] \<Longrightarrow>
     getattr (last (matching fn xs)) ''url'' = Inr u \<Longrightarrow> find_url fn xs url = Inr u"
  using find_url_last [of xs fn url] by auto

lemma getAttachment_fetch:
  assumes "map_of (attrs s) ''attachments'' = Some a"
    and "getattr a ''TestRunAttachment'' = Inr l"
    and "py_iter l = Inr xs"
    and "find_url fn xs PNone = Inr url"
    and "url \<noteq> PNone"
    and "map_of (attrs s) ''_polarion'' = Some (PClient u p)"
  shows "getAttachment env fn s =
     (case env (calls s) (HttpGet url u p) of
        Inl e \<Rightarrow> (Inl e, s\<lparr>calls := calls s @ [HttpGet url u p]\<rparr>)
      | Inr resp \<Rightarrow>
          (case getattr resp ''ok'' of
             Inl e \<Rightarrow> (Inl e, s\<lparr>calls := calls s @ [HttpGet url u p]\<rparr>)
           | Inr ok \<Rightarrow>
               if ok = PBool True \<or> ok = PInt 1
               then (getattr resp ''content'', s\<lparr>calls := calls s @ [HttpGet url u p]\<rparr>)
               else (Inl (Exception (''Could not download attachment '' @ fn)),
                     s\<lparr>calls := calls s @ [HttpGet url u p]\<rparr>)))"
proof -
  have c: "getattr (PClient u p) ''user'' = Inr u" "getattr (PClient u p) ''password'' = Inr p"
    by (simp_all add: getattr_def)
  show ?thesis
    using assms c
    by (simp add: getAttachment_def bnd_getattr_self bnd_call lift_def raise_def
        split: sum.splits)
qed

lemma getAttachment_no_url:
  assumes "map_of (attrs s) ''attachments'' = Some a"
    and "getattr a ''TestRunAttachment'' = Inr l"
    and "py_iter l = Inr xs"
    and "find_url fn xs PNone = Inr PNone"
  shows "getAttachment env fn s =
           (Inl (Exception (''Could not find attachment with name '' @ fn)), s)"
  using assms by (simp add: getAttachment_def bnd_getattr_self raise_def)

lemmas att_simps = getAttachment_def matching_def is_entry_def

text \<open>
  The outcomes of \<^verbatim>\<open>getAttachment\<close> on a record whose attachments collection is
  present, with entries that each have a file name and a URL: when no entry has the file name asked for, \<^verbatim>\<open>getAttachment\<close>
  raises "Could not find attachment with name ..." and calls nothing; when an entry
  matches and the authenticated fetch of its URL answers with a response that is not ok,
  it raises "Could not download attachment ..."; when the response is ok it returns the
  response's content. (The URL fetched is that of the last matching entry, see C10. A
  matching entry whose URL is \<^verbatim>\<open>None\<close> is never fetched.)
\<close>

lemma getAttachment_outcomes:
  assumes "map_of (attrs s) ''attachments'' = Some a"
    and "getattr a ''TestRunAttachment'' = Inr l"
    and "py_iter l = Inr xs"
    and "list_all is_entry xs"
  shows "(matching fn xs = [] \<longrightarrow>
            getAttachment env fn s =
              (Inl (Exception (''Could not find attachment with name '' @ fn)), s)) \<and>
         (\<forall>url u p resp ok.
            matching fn xs \<noteq> [] \<and> getattr (last (matching fn xs)) ''url'' = Inr url \<and>
            url \<noteq> PNone \<and> map_of (attrs s) ''_polarion'' = Some (PClient u p) \<and>
            env (calls s) (HttpGet url u p) = Inr resp \<and> getattr resp ''ok'' = Inr ok \<longrightarrow>
            getAttachment env fn s =
              (if ok = PBool True \<or> ok = PInt 1 then getattr resp ''content''
               else Inl (Exception (''Could not download attachment '' @ fn)),
               s\<lparr>calls := calls s @ [HttpGet url u p]\<rparr>))"
proof (intro conjI impI allI)
  assume "matching fn xs = []"
  then have "find_url fn xs PNone = Inr PNone" using assms(4) by (rule find_url_none [rotated])
  then show "getAttachment env fn s =
      (Inl (Exception (''Could not find attachment with name '' @ fn)), s)"
    using assms by (simp add: getAttachment_no_url)
next
  fix url u p resp ok
  assume h: "matching fn xs \<noteq> [] \<and> getattr (last (matching fn xs)) ''url'' = Inr url \<and>
            url \<noteq> PNone \<and> map_of (attrs s) ''_polarion'' = Some (PClient u p) \<and>
            env (calls s) (HttpGet url u p) = Inr resp \<and> getattr resp ''ok'' = Inr ok"
  then have f: "find_url fn xs PNone = Inr url" using assms(4) find_url_some by blast
  show "getAttachment env fn s =
              (if ok = PBool True \<or> ok = PInt 1 then getattr resp ''content''
               else Inl (Exception (''Could not download attachment '' @ fn)),
               s\<lparr>calls := calls s @ [HttpGet url u p]\<rparr>)"
    using getAttachment_fetch [OF assms(1,2,3) f, of u p env] h by simp
qed

lemma getAttachment_outcomes_example:
  "getAttachment (ex_env PNone True) ''missing.txt'' (ex_state PNone PNone ex_attachments) =
     (Inl (Exception ''Could not find attachment with name missing.txt''),
      ex_state PNone PNone ex_attachments) \<and>
   getAttachment (ex_env PNone False) ''b.txt'' (ex_state PNone PNone ex_attachments) =
     (Inl (Exception ''Could not download attachment b.txt''),
      (ex_state PNone PNone ex_attachments)
        \<lparr>calls := [HttpGet (PStr ''http://h/2'') (PStr ''tester'') (PStr ''secret'')]\<rparr>) \<and>
   getAttachment (ex_env PNone True) ''b.txt'' (ex_state PNone PNone ex_attachments) =
     (Inr (PBytes ''data''),
      (ex_state PNone PNone ex_attachments)
        \<lparr>calls := [HttpGet (PStr ''http://h/2'') (PStr ''tester'') (PStr ''secret'')]\<rparr>)"
  using getAttachment_outcomes
     [of "ex_state PNone PNone ex_attachments" ex_attachments
         "PList [ex_attachment ''a.txt'' ''http://h/1'', ex_attachment ''b.txt'' ''http://h/2'',
                   ex_attachment ''a.txt'' ''http://h/3'']"
         "[ex_attachment ''a.txt'' ''http://h/1'', ex_attachment ''b.txt'' ''http://h/2'',
                   ex_attachment ''a.txt'' ''http://h/3'']" "''missing.txt''" "ex_env PNone True"]
  by (simp add: att_simps run_simps ex_simps)

text \<open>
  C5. A record without attachments holds \<^verbatim>\<open>None\<close> as its attachments collection
  (\<^verbatim>\<open>hasAttachment\<close> tests for it). No entry of it has the file name asked for, yet
  \<^verbatim>\<open>getAttachment\<close> does not reach its "Could not find attachment with name ..."
  branch: line 167 reads \<^verbatim>\<open>TestRunAttachment\<close> of \<^verbatim>\<open>None\<close> and raises
  \<^verbatim>\<open>AttributeError\<close>. (On a collection that is present the three outcomes are those
  of \<open>getAttachment_outcomes\<close>.)
\<close>

theorem getAttachment_null_collection_raises:
  "map_of (attrs (ex_state PNone PNone PNone)) ''attachments'' = Some PNone \<and>
   hasAttachment (ex_state PNone PNone PNone) = (Inr False, ex_state PNone PNone PNone) \<and>
   getAttachment (ex_env PNone True) ''missing.txt'' (ex_state PNone PNone PNone) =
     (Inl (AttributeError ''TestRunAttachment''), ex_state PNone PNone PNone)"
  by (simp add: att_simps hasAttachment_def run_simps ex_simps)



section \<open>Building the record from a payload\<close>

subsection \<open>Flattening the payload\<close>

lemma setattrs_map_of:
  "map_of (setattrs kvs al) k =
     (case map_of (rev kvs) k of None \<Rightarrow> map_of al k | Some v \<Rightarrow> Some v)"
proof (induction kvs arbitrary: al)
  case Nil
  then show ?case by simp
next
  case (Cons kv kvs)
  obtain k' v' where kv: "kv = (k', v')" by (cases kv)
  show ?case
    by (simp add: kv Cons.IH AList.update_conv' map_add_def split: option.splits)
qed

lemma setattrs_keeps:
  "k \<notin> fst ` set kvs \<Longrightarrow> map_of (setattrs kvs al) k = map_of al k"
proof -
  assume "k \<notin> fst ` set kvs"
  then have "map_of (rev kvs) k = None" by (simp add: map_of_eq_None_iff)
  then show ?thesis by (simp add: setattrs_map_of)
qed


lemma flat_items_Cons:
  "flat_items ((a, v) # d) =
     (case iter_items v of Inl _ \<Rightarrow> [] | Inr kvs \<Rightarrow> kvs) @ flat_items d"
  by (simp add: flat_items_def)

lemma flat_items_Nil [simp]: "flat_items [] = []"
  by (simp add: flat_items_def)

lemma flatten_attrs_keeps:
  "k \<notin> fst ` set (flat_items d) \<Longrightarrow> map_of (attrs (snd (flatten d s))) k = map_of (attrs s) k"
proof (induction d s rule: flatten.induct)
  case (1 s)
  then show ?case by simp
next
  case (2 attr val rest s)
  show ?case
  proof (cases "iter_items val")
    case (Inl e)
    then show ?thesis by simp
  next
    case (Inr kvs)
    from "2.prems" Inr have k1: "k \<notin> fst ` set kvs" and k2: "k \<notin> fst ` set (flat_items rest)"
      by (auto simp: flat_items_Cons)
    show ?thesis using "2.IH" [OF Inr k2] Inr k1 by (simp add: setattrs_keeps)
  qed
qed




subsection \<open>Parsing the reference\<close>






subsection \<open>Running the build\<close>





lemmas init_simps = Record_init_def buildWorkitemFromPolarion_def payload_keys_def flat_items_def
  flattens_def getTestCaseName_def

lemma Record_init_example:
  "Record_init ex_client ex_test_run (ex_payload r st at) (PInt 0) [] = (Inr (), ex_state r st at)"
  by (simp add: init_simps run_simps ex_simps)



section \<open>The identity of a record\<close>


lemma keeps_raise [simp]: "keeps k (raise e)"
  by (simp add: keeps_def raise_def)









lemma keeps_flatten:
  "k \<notin> fst ` set (flat_items d) \<Longrightarrow> keeps k (flatten d)"
  by (simp add: keeps_def flatten_attrs_keeps)
















section \<open>setResult\<close>











lemma bnd_bnd_run:
  "bnd (bnd m f) g s = bnd m (\<lambda>x. bnd (f x) g) s"
  by (simp add: bnd_assoc)




section \<open>setTestStepResult\<close>

lemma setTestStepResult_beyond_end:
  assumes "map_of (attrs s) ''testStepResults'' = Some tsr"
    and "tsr \<noteq> PNone"
    and "getattr tsr ''TestStepResult'' = Inr xs"
    and "py_len xs = Inr n"
    and "n \<le> step_number"
  shows "setTestStepResult env step_number result comment s = save env s"
  using assms by (simp add: setTestStepResult_def bnd_getattr_self)

lemmas step_simps = setTestStepResult_def init_steps_def set_step_def assign_slot_def
  append_slot_def append_slots.simps

lemma setTestStepResult_beyond_end_example:
  "setTestStepResult (ex_env PNone True) 2 PASSED PNone
     (ex_state PNone (PObj [(''TestStepResult'', PList [TestStepResultType, TestStepResultType])])
        PNone) =
   save (ex_env PNone True)
     (ex_state PNone (PObj [(''TestStepResult'', PList [TestStepResultType, TestStepResultType])])
        PNone)"
  by (rule setTestStepResult_beyond_end
        [where n = 2 and xs = "PList [TestStepResultType, TestStepResultType]"
           and tsr = "PObj [(''TestStepResult'', PList [TestStepResultType, TestStepResultType])]"])
     (simp_all add: py_len_def getattr_def ex_state_def ex_fields_def)

text \<open>
  C1. The guard of line 71, \<^verbatim>\<open>step_number < len(...)\<close>, lets every negative step number
  through. With two step slots and step number \<open>-3\<close> the subscript of line 72 raises
  \<^verbatim>\<open>IndexError\<close>: the exception leaves \<^verbatim>\<open>setTestStepResult\<close>, the record is as it was
  and no call has been made, so \<^verbatim>\<open>save\<close> did not run. (For a step number at or beyond
  the number of slots the operation is \<^verbatim>\<open>save\<close> and nothing else, as
  \<open>setTestStepResult_beyond_end\<close> shows.)
\<close>

theorem setTestStepResult_negative_index_raises:
  "setTestStepResult (ex_env PNone True) (- 3) PASSED PNone
     (ex_state PNone (PObj [(''TestStepResult'', PList [TestStepResultType, TestStepResultType])])
        PNone) =
   (Inl IndexError,
    ex_state PNone (PObj [(''TestStepResult'', PList [TestStepResultType, TestStepResultType])])
      PNone)"
  by (simp add: step_simps bnd_bnd_run run_simps ex_simps)

end
